theory Spec2Isabelle
  imports Main "HOL-Library.AList" "HOL-Library.Transitive_Closure_Table"
begin

section \<open>JavaScript values and built-ins the widgets rely on\<close>

text \<open>
  The two widgets, \<^verbatim>\<open>selection_toolbar.ts\<close> and \<^verbatim>\<open>slice_module.ts\<close>, are event
  handlers over shared services. A handler is modelled as a function from the application
  state to the new state; a handler that would read a property of \<^verbatim>\<open>undefined\<close>
  returns an error instead.
\<close>

datatype error =
    NaNIndex            \<comment> \<open>\<^verbatim>\<open>x % 0\<close> is \<^verbatim>\<open>NaN\<close>, and the element at index \<^verbatim>\<open>NaN\<close> is \<^verbatim>\<open>undefined\<close>\<close>
  | UndefinedElement    \<comment> \<open>an array read outside \<^verbatim>\<open>0 .. length - 1\<close> gave \<^verbatim>\<open>undefined\<close>, which the handler uses\<close>
  | UndefinedSliceName  \<comment> \<open>\<^verbatim>\<open>sliceNames[length - 1]\<close> of an empty list of names\<close>

text \<open>
  The remainder operator \<^verbatim>\<open>a % b\<close> on integral numbers: the result has the sign of the
  dividend, and a zero divisor gives \<^verbatim>\<open>NaN\<close> (here \<open>None\<close>).
\<close>

definition js_rem :: "int \<Rightarrow> int \<Rightarrow> int option" where
  "js_rem a b = (if b = 0 then None else Some (sgn a * (\<bar>a\<bar> mod \<bar>b\<bar>)))"

text \<open>\<^verbatim>\<open>xs[i]\<close>: \<^verbatim>\<open>undefined\<close> (here \<open>None\<close>) outside the array.\<close>

definition js_index :: "'a list \<Rightarrow> int \<Rightarrow> 'a option" where
  "js_index xs i = (if 0 \<le> i \<and> i < int (length xs) then Some (xs ! nat i) else None)"

text \<open>\<^verbatim>\<open>Array.prototype.findIndex\<close>: the first index whose element satisfies the test, or \<open>-1\<close>.\<close>

fun findIndex :: "('a \<Rightarrow> bool) \<Rightarrow> 'a list \<Rightarrow> int" where
  "findIndex P [] = - 1"
| "findIndex P (x # xs) =
     (if P x then 0 else (let r = findIndex P xs in if r = - 1 then - 1 else r + 1))"

text \<open>
  A JavaScript \<^verbatim>\<open>Set\<close> iterates in insertion order and ignores the insertion of a member:
  it is modelled as the list of its members in insertion order.
\<close>

definition Set_add :: "'a list \<Rightarrow> 'a \<Rightarrow> 'a list" where
  "Set_add s x = (if x \<in> set s then s else s @ [x])"

definition Set_of :: "'a list \<Rightarrow> 'a list" where
  "Set_of xs = foldl Set_add [] xs"

section \<open>Application state\<close>

text \<open>
  A dataset row as the widgets use it: \<^verbatim>\<open>d.id\<close>, \<^verbatim>\<open>d.meta['parentId']\<close> and
  \<^verbatim>\<open>d.meta['isFavorited']\<close>; an absent (\<^verbatim>\<open>null\<close> or \<^verbatim>\<open>undefined\<close>) meta field is
  \<open>None\<close>.
\<close>

record row =
  row_id :: string
  parentId :: "string option"
  isFavorited :: "bool option"

text \<open>
  Modelled from the spec: the state of a selection service, the selected identifiers (a
  set, in insertion order) and the primary identifier or null.
\<close>

record selection =
  selectedIds :: "string list"
  primarySelectedId :: "string option"

text \<open>
  Modelled from the spec: the state of the slice service, the named slices in creation
  order, each with its members, and the name of the active slice (empty when none is).
\<close>

record slices =
  namedSlices :: "(string \<times> string list) list"
  selectedSliceName :: string

text \<open>
  The services the widgets share (\<^verbatim>\<open>appState\<close>, the main and the reference
  \<^verbatim>\<open>SelectionService\<close>, \<^verbatim>\<open>sliceService\<close>) and the observable fields of the two widgets
  (\<^verbatim>\<open>highlightFavorite\<close> of the toolbar, \<^verbatim>\<open>sliceByFeatures\<close> and \<^verbatim>\<open>sliceName\<close> of the
  slice editor).
\<close>

record world =
  currentInputData :: "row list"
  compareExamplesEnabled :: bool
  selectionService :: selection
  referenceSelectionService :: selection
  sliceService :: slices
  highlightFavorite :: bool
  sliceByFeatures :: "string list"
  sliceName :: string

section \<open>The services, from their specification\<close>

text \<open>
  Modelled from the spec: the reserved constant \<^verbatim>\<open>FAVORITES_SLICE_NAME\<close> of
  \<^verbatim>\<open>services/slice_service.ts\<close>, which is not among the sources. Only its being one
  fixed, non-empty name matters.
\<close>

definition FAVORITES_SLICE_NAME :: string where
  "FAVORITES_SLICE_NAME = ''Favorites''"

text \<open>
  Modelled from the spec: \<^verbatim>\<open>SelectionService.selectIds\<close> (the selection service is not
  among the sources). The selection is a set with unique membership, so duplicates
  collapse; the primary identifier must be a member of the selection or null, so it is
  kept when it is still selected and is otherwise the first selected identifier (the
  spec's paging scenario, "prev" twice from \<open>[c]\<close> yields \<open>[a]\<close>, needs the single
  selected identifier to be the primary one).
\<close>

definition selectIds :: "string list \<Rightarrow> selection \<Rightarrow> selection" where
  "selectIds ids s =
     \<lparr>selectedIds = Set_of ids,
      primarySelectedId =
        (case primarySelectedId s of
           Some p \<Rightarrow> if p \<in> set ids then Some p else (case ids of [] \<Rightarrow> None | x # _ \<Rightarrow> Some x)
         | None \<Rightarrow> (case ids of [] \<Rightarrow> None | x # _ \<Rightarrow> Some x))\<rparr>"

text \<open>
  Modelled from the spec: \<^verbatim>\<open>SelectionService.setPrimarySelection\<close>. Within the selection
  it moves the primary pointer and leaves the selection set alone; an identifier outside
  the selection is selected first, so that the primary stays a member of the selection.
\<close>

definition setPrimarySelection :: "string \<Rightarrow> selection \<Rightarrow> selection" where
  "setPrimarySelection i s =
     (if i \<in> set (selectedIds s) then s\<lparr>primarySelectedId := Some i\<rparr>
      else \<lparr>selectedIds = [i], primarySelectedId = Some i\<rparr>)"

text \<open>Modelled from the spec: \<^verbatim>\<open>SelectionService.isIdSelected\<close>, membership in the selection.\<close>

definition isIdSelected :: "string \<Rightarrow> selection \<Rightarrow> bool" where
  "isIdSelected i s = (i \<in> set (selectedIds s))"

text \<open>
  Modelled from the spec: \<^verbatim>\<open>SelectionService.selectedOrAllInputData\<close>, the selected rows
  of the dataset, or the whole dataset when nothing is selected.
\<close>

definition selectedOrAllInputData :: "world \<Rightarrow> row list" where
  "selectedOrAllInputData w =
     (if selectedIds (selectionService w) = [] then currentInputData w
      else filter (\<lambda>d. row_id d \<in> set (selectedIds (selectionService w))) (currentInputData w))"

text \<open>
  Modelled from the spec: \<^verbatim>\<open>SelectionService.primarySelectedInputData\<close>, the dataset row
  of the primary identifier, or null when there is no primary identifier or no such row.
\<close>

definition primarySelectedInputData :: "world \<Rightarrow> row option" where
  "primarySelectedInputData w =
     (case primarySelectedId (selectionService w) of
        None \<Rightarrow> None
      | Some p \<Rightarrow> find (\<lambda>d. row_id d = p) (currentInputData w))"

text \<open>
  Modelled from the spec: \<^verbatim>\<open>AppState.getAncestry\<close> (the application state is not among
  the sources): the identifier itself, then its parent, the parent's parent and so on,
  following \<^verbatim>\<open>parentId\<close> links while the row exists and has a non-empty parent. The walk
  makes at most one step more than the dataset has rows, which covers every chain that
  does not repeat an identifier.
\<close>

fun ancestry :: "row list \<Rightarrow> nat \<Rightarrow> string \<Rightarrow> string list" where
  "ancestry rows 0 i = []"
| "ancestry rows (Suc n) i =
     i # (case find (\<lambda>d. row_id d = i) rows of
            None \<Rightarrow> []
          | Some d \<Rightarrow> (case parentId d of
                         None \<Rightarrow> []
                       | Some p \<Rightarrow> if p = [] then [] else ancestry rows n p))"

text \<open>
  Modelled from the spec: \<^verbatim>\<open>AppState.getAncestry\<close>, the walk above from the
  identifier, over the current dataset.
\<close>

definition getAncestry :: "world \<Rightarrow> string \<Rightarrow> string list" where
  "getAncestry w i = ancestry (currentInputData w) (Suc (length (currentInputData w))) i"

text \<open>
  The lineage edge of the data model, child to parent: the row with identifier \<open>c\<close> has
  the non-empty \<^verbatim>\<open>parentId\<close> \<open>p\<close>. Ancestors are what its reflexive transitive closure
  reaches.
\<close>

definition parentLink :: "world \<Rightarrow> string \<Rightarrow> string \<Rightarrow> bool" where
  "parentLink w c p =
     (case find (\<lambda>d. row_id d = c) (currentInputData w) of
        None \<Rightarrow> False
      | Some d \<Rightarrow> parentId d = Some p \<and> p \<noteq> [])"

text \<open>
  Modelled from the spec: the slice service (\<^verbatim>\<open>services/slice_service.ts\<close> is not among
  the sources). Slices are kept in creation order, each name once, each membership a set.
  \<^verbatim>\<open>addNamedSlice\<close> stores the identifiers under the name.
\<close>

definition addNamedSlice :: "string \<Rightarrow> string list \<Rightarrow> slices \<Rightarrow> slices" where
  "addNamedSlice name ids s = s\<lparr>namedSlices := AList.update name (Set_of ids) (namedSlices s)\<rparr>"

text \<open>
  Modelled from the spec: \<^verbatim>\<open>SliceService.deleteNamedSlice\<close>. The favorites slice is
  reserved and cannot be deleted; any other name is removed.
\<close>

definition deleteNamedSlice :: "string \<Rightarrow> slices \<Rightarrow> slices" where
  "deleteNamedSlice name s =
     (if name = FAVORITES_SLICE_NAME then s
      else s\<lparr>namedSlices := AList.delete name (namedSlices s)\<rparr>)"

text \<open>
  Modelled from the spec: \<^verbatim>\<open>SliceService.addIdsToSlice\<close>, which adds the identifiers
  to the membership of an existing slice; the membership is a set, so a member is not
  added again.
\<close>

definition addIdsToSlice :: "string \<Rightarrow> string list \<Rightarrow> slices \<Rightarrow> slices" where
  "addIdsToSlice name ids s =
     (case map_of (namedSlices s) name of
        None \<Rightarrow> s
      | Some members \<Rightarrow> s\<lparr>namedSlices := AList.update name (foldl Set_add members ids) (namedSlices s)\<rparr>)"

text \<open>
  Modelled from the spec: \<^verbatim>\<open>SliceService.removeIdsFromSlice\<close>, which takes the
  identifiers out of the membership of an existing slice.
\<close>

definition removeIdsFromSlice :: "string \<Rightarrow> string list \<Rightarrow> slices \<Rightarrow> slices" where
  "removeIdsFromSlice name ids s =
     (case map_of (namedSlices s) name of
        None \<Rightarrow> s
      | Some members \<Rightarrow>
          s\<lparr>namedSlices := AList.update name (filter (\<lambda>i. i \<notin> set ids) members) (namedSlices s)\<rparr>)"

text \<open>
  Modelled from the spec: \<^verbatim>\<open>SliceService.selectNamedSlice\<close>. It sets the active-slice
  indicator and replaces the main selection with the membership of the named slice;
  the empty name, and a name without a slice, only set the indicator.
\<close>

definition selectNamedSlice :: "string \<Rightarrow> world \<Rightarrow> world" where
  "selectNamedSlice name w =
     (let w1 = w\<lparr>sliceService := (sliceService w)\<lparr>selectedSliceName := name\<rparr>\<rparr>
      in if name = [] then w1
         else (case map_of (namedSlices (sliceService w)) name of
                 None \<Rightarrow> w1
               | Some members \<Rightarrow> w1\<lparr>selectionService := selectIds members (selectionService w)\<rparr>))"

text \<open>Modelled from the spec: \<^verbatim>\<open>SliceService.sliceNames\<close>, the slice names in order.\<close>

definition sliceNames :: "slices \<Rightarrow> string list" where
  "sliceNames s = map fst (namedSlices s)"

text \<open>
  Modelled from the spec: \<^verbatim>\<open>flatten\<close> of \<^verbatim>\<open>lib/utils.ts\<close> (not among the sources), which
  concatenates a list of lists.
\<close>

definition flatten :: "'a list list \<Rightarrow> 'a list" where
  "flatten xss = concat xss"

section \<open>The selection toolbar\<close>

text \<open>
  \<^verbatim>\<open>selectedIdPairs\<close>: the pairs \<open>(child, parent)\<close> of the selected rows, or of all
  rows when nothing is selected, that have a truthy \<^verbatim>\<open>parentId\<close>.
\<close>

definition selectedIdPairs :: "world \<Rightarrow> (string \<times> string) list" where
  "selectedIdPairs w =
     List.map_filter
       (\<lambda>d. case parentId d of
               None \<Rightarrow> None
             | Some p \<Rightarrow> if p = [] then None else Some (row_id d, p))
       (selectedOrAllInputData w)"

definition findAllParents :: "world \<Rightarrow> string list" where
  "findAllParents w = flatten (map (getAncestry w) (selectedIds (selectionService w)))"

text \<open>
  \<^verbatim>\<open>findAllChildren\<close>: a set that starts as the selection; every row with a selected
  identifier in its ancestry is added (once for each such ancestor, as the inner loop
  continues after an addition).
\<close>

definition findAllChildren :: "world \<Rightarrow> string list" where
  "findAllChildren w =
     foldl
       (\<lambda>ids d.
          foldl (\<lambda>ids ancestorId.
                   if isIdSelected ancestorId (selectionService w) then Set_add ids (row_id d)
                   else ids)
                ids (getAncestry w (row_id d)))
       (Set_of (selectedIds (selectionService w)))
       (currentInputData w)"

definition selectRelated :: "world \<Rightarrow> world" where
  "selectRelated w =
     w\<lparr>selectionService := selectIds (findAllParents w @ findAllChildren w) (selectionService w)\<rparr>"

text \<open>
  \<^verbatim>\<open>data.meta['isFavorited'] = ...\<close> writes to the row object that the dataset holds:
  the first row with the identifier, the one \<^verbatim>\<open>primarySelectedInputData\<close> returned.
\<close>

fun mutateRow :: "string \<Rightarrow> (row \<Rightarrow> row) \<Rightarrow> row list \<Rightarrow> row list" where
  "mutateRow i f [] = []"
| "mutateRow i f (d # ds) = (if row_id d = i then f d # ds else d # mutateRow i f ds)"

definition toggleFavorited :: "world \<Rightarrow> world" where
  "toggleFavorited w =
     (case primarySelectedInputData w of
        None \<Rightarrow> w
      | Some data \<Rightarrow>
          (case isFavorited data of
             None \<Rightarrow> w
           | Some b \<Rightarrow>
               (let w1 = w\<lparr>currentInputData :=
                            mutateRow (row_id data) (\<lambda>d. d\<lparr>isFavorited := Some (\<not> b)\<rparr>)
                              (currentInputData w)\<rparr>;
                    w2 = (if \<not> b
                          then w1\<lparr>sliceService :=
                                    addIdsToSlice FAVORITES_SLICE_NAME [row_id data] (sliceService w1)\<rparr>
                          else w1\<lparr>sliceService :=
                                    removeIdsFromSlice FAVORITES_SLICE_NAME [row_id data] (sliceService w1)\<rparr>);
                    w3 = (if selectedSliceName (sliceService w2) = FAVORITES_SLICE_NAME
                          then selectNamedSlice FAVORITES_SLICE_NAME w2 else w2)
                in w3\<lparr>highlightFavorite := \<not> b\<rparr>)))"

text \<open>
  \<^verbatim>\<open>renderSelectionArrows\<close>, the handler \<^verbatim>\<open>selectOffset\<close>: page through the dataset,
  from the index of the primary identifier.
\<close>

definition selectionArrows_selectOffset :: "int \<Rightarrow> world \<Rightarrow> error + world" where
  "selectionArrows_selectOffset offset w =
     (let primaryId = primarySelectedId (selectionService w);
          selectedIndex = findIndex (\<lambda>ex. Some (row_id ex) = primaryId) (currentInputData w);
          numExamples = int (length (currentInputData w))
      in case js_rem (selectedIndex + offset + numExamples) numExamples of
           None \<Rightarrow> Inl NaNIndex
         | Some nextIndex \<Rightarrow>
             (case js_index (currentInputData w) nextIndex of
                None \<Rightarrow> Inl UndefinedElement
              | Some ex \<Rightarrow>
                  Inr (w\<lparr>selectionService := selectIds [row_id ex] (selectionService w)\<rparr>)))"


text \<open>
  \<^verbatim>\<open>renderPairControls\<close>, the handler \<^verbatim>\<open>selectOffset\<close>: cycle through the pairs. A pair
  is selected when the main primary identifier is its child and the reference primary
  identifier is its parent (\<^verbatim>\<open>compareArrays\<close> returning \<open>0\<close>).
\<close>

definition pair_selectOffset :: "int \<Rightarrow> world \<Rightarrow> error + world" where
  "pair_selectOffset offset w =
     (let idPairs = selectedIdPairs w;
          selectedPairIndex =
            (case (primarySelectedId (selectionService w),
                   primarySelectedId (referenceSelectionService w)) of
               (Some c, Some p) \<Rightarrow> findIndex (\<lambda>pair. pair = (c, p)) idPairs
             | _ \<Rightarrow> - 1);
          isPairSelected = (selectedPairIndex \<noteq> - 1);
          numPairs = int (length idPairs);
          start = (if isPairSelected then selectedPairIndex else 0)
      in case js_rem (start + offset + numPairs) numPairs of
           None \<Rightarrow> Inl NaNIndex
         | Some nextPairIndex \<Rightarrow>
             (case js_index idPairs nextPairIndex of
                None \<Rightarrow> Inl UndefinedElement
              | Some nextIds \<Rightarrow>
                  (let w1 = (if selectedIds (selectionService w) = []
                             then w\<lparr>selectionService :=
                                      selectIds (flatten (map (\<lambda>(c, p). [c, p]) idPairs))
                                        (selectionService w)\<rparr>
                             else w)
                   in Inr (w1\<lparr>selectionService :=
                                 setPrimarySelection (fst nextIds) (selectionService w1),
                               referenceSelectionService :=
                                 setPrimarySelection (snd nextIds) (referenceSelectionService w1)\<rparr>))))"

text \<open>\<^verbatim>\<open>render\<close>: which controls of the toolbar are on the page, and which buttons are disabled.\<close>

record controls =
  luckyButton :: bool
  selectionArrows :: bool
  primarySelectControls :: bool
  primarySelectArrows :: bool
  pairControls :: bool
  selectRelatedDisabled :: bool
  clearSelectionDisabled :: bool
  compareDisabled :: bool

definition render :: "world \<Rightarrow> controls" where
  "render w =
     (let numSelected = length (selectedIds (selectionService w));
          primaryId = primarySelectedId (selectionService w)
      in \<lparr>luckyButton = (numSelected = 0),
          selectionArrows = (numSelected = 1),
          primarySelectControls = (primaryId \<noteq> None),
          primarySelectArrows = (primaryId \<noteq> None \<and> numSelected > 1),
          pairControls = (compareExamplesEnabled w \<and> length (selectedIdPairs w) \<noteq> 0),
          selectRelatedDisabled = (numSelected = 0),
          clearSelectionDisabled = (numSelected = 0),
          compareDisabled = (\<not> compareExamplesEnabled w \<and> numSelected = 0)\<rparr>)"

section \<open>The slice editor\<close>

text \<open>\<^verbatim>\<open>anyCheckboxChecked\<close> is a number, the length of the list; it is tested for truthiness.\<close>

definition anyCheckboxChecked :: "world \<Rightarrow> nat" where
  "anyCheckboxChecked w = length (sliceByFeatures w)"

definition createButtonEnabled :: "world \<Rightarrow> bool" where
  "createButtonEnabled w =
     (let sliceFromFilters =
            (length (selectedIds (selectionService w)) = 0 \<and> anyCheckboxChecked w \<noteq> 0)
      in sliceFromFilters \<or>
         (sliceName w \<noteq> []) \<and> (length (selectedIds (selectionService w)) > 0))"

definition deleteButtonEnabled :: "world \<Rightarrow> bool" where
  "deleteButtonEnabled w =
     (selectedSliceName (sliceService w) \<noteq> [] \<and>
      selectedSliceName (sliceService w) \<noteq> FAVORITES_SLICE_NAME)"

definition sliceNameInputEditable :: "world \<Rightarrow> bool" where
  "sliceNameInputEditable w =
     (length (selectedIds (selectionService w)) > 0 \<or> anyCheckboxChecked w \<noteq> 0)"

definition lastCreatedSlice :: "world \<Rightarrow> string option" where
  "lastCreatedSlice w =
     (let allSlices = sliceNames (sliceService w)
      in js_index allSlices (int (length allSlices) - 1))"

definition selectSlice :: "string \<Rightarrow> world \<Rightarrow> world" where
  "selectSlice name w = selectNamedSlice name w"

text \<open>
  \<^verbatim>\<open>makeSlicesFromAllLabelCombos\<close>: one slice for each group. The grouping of the rows
  by features belongs to the group service and is a parameter here: it returns the groups
  in the order of their keys, each with its rows.
\<close>

definition makeSlicesFromAllLabelCombos ::
    "(row list \<Rightarrow> string list \<Rightarrow> (string \<times> row list) list) \<Rightarrow> world \<Rightarrow> world" where
  "makeSlicesFromAllLabelCombos groupExamplesByFeatures w =
     (let data = selectedOrAllInputData w;
          groups = groupExamplesByFeatures data (sliceByFeatures w);
          sliceNamePrefix = sliceName w
      in foldl
           (\<lambda>w' (name, rows).
              w'\<lparr>sliceService :=
                   addNamedSlice (sliceNamePrefix @ ''  '' @ name) (map row_id rows)
                     (sliceService w')\<rparr>)
           w groups)"

definition handleClickCreate ::
    "(row list \<Rightarrow> string list \<Rightarrow> (string \<times> row list) list) \<Rightarrow> world \<Rightarrow> error + world" where
  "handleClickCreate groupExamplesByFeatures w =
     (case (if anyCheckboxChecked w \<noteq> 0
            then (let w1 = makeSlicesFromAllLabelCombos groupExamplesByFeatures w
                  in case lastCreatedSlice w1 of
                       None \<Rightarrow> Inl UndefinedSliceName
                     | Some name \<Rightarrow> Inr (selectSlice name w1))
            else (let ids = selectedIds (selectionService w);
                      createSliceName = sliceName w;
                      w1 = w\<lparr>sliceService := addNamedSlice createSliceName ids (sliceService w)\<rparr>
                  in Inr (selectSlice createSliceName w1))) of
        Inl e \<Rightarrow> Inl e
      | Inr w2 \<Rightarrow> Inr (w2\<lparr>sliceName := [], sliceByFeatures := []\<rparr>))"

definition deleteSlice :: "world \<Rightarrow> world" where
  "deleteSlice w =
     selectSlice []
       (w\<lparr>sliceService := deleteNamedSlice (selectedSliceName (sliceService w)) (sliceService w)\<rparr>)"

section \<open>Example states\<close>

text \<open>A dataset of five rows \<open>a\<close> to \<open>e\<close> with the single selection \<open>c\<close>.\<close>

definition paging_example :: world where
  "paging_example =
     \<lparr>currentInputData =
        [\<lparr>row_id = ''a'', parentId = None, isFavorited = Some False\<rparr>,
         \<lparr>row_id = ''b'', parentId = None, isFavorited = Some False\<rparr>,
         \<lparr>row_id = ''c'', parentId = None, isFavorited = Some False\<rparr>,
         \<lparr>row_id = ''d'', parentId = None, isFavorited = Some False\<rparr>,
         \<lparr>row_id = ''e'', parentId = None, isFavorited = Some False\<rparr>],
      compareExamplesEnabled = False,
      selectionService = \<lparr>selectedIds = [''c''], primarySelectedId = Some ''c''\<rparr>,
      referenceSelectionService = \<lparr>selectedIds = [], primarySelectedId = None\<rparr>,
      sliceService = \<lparr>namedSlices = [(''Favorites'', [])], selectedSliceName = []\<rparr>,
      highlightFavorite = False,
      sliceByFeatures = [],
      sliceName = ''mine''\<rparr>"

text \<open>
  Three rows: \<open>x\<close> is not a favorite, \<open>y\<close> is one, \<open>z\<close> has no favorite flag. The
  favorites slice is the active slice and \<open>x\<close> is the primary selection.
\<close>

definition favorites_example :: world where
  "favorites_example =
     \<lparr>currentInputData =
        [\<lparr>row_id = ''x'', parentId = None, isFavorited = Some False\<rparr>,
         \<lparr>row_id = ''y'', parentId = None, isFavorited = Some True\<rparr>,
         \<lparr>row_id = ''z'', parentId = None, isFavorited = None\<rparr>],
      compareExamplesEnabled = False,
      selectionService = \<lparr>selectedIds = [''x''], primarySelectedId = Some ''x''\<rparr>,
      referenceSelectionService = \<lparr>selectedIds = [], primarySelectedId = None\<rparr>,
      sliceService = \<lparr>namedSlices = [(''Favorites'', [''y'']), (''mine'', [''z''])],
                      selectedSliceName = ''Favorites''\<rparr>,
      highlightFavorite = False,
      sliceByFeatures = [],
      sliceName = []\<rparr>"

text \<open>
  Two rows with parents, \<open>child1\<close> of \<open>parent1\<close> and \<open>child2\<close> of \<open>parent2\<close>; comparison
  mode is on and nothing is selected. \<open>pairs_example_next\<close> is that state with all four
  pair members selected, \<open>child2\<close> primary in the main selection and \<open>parent2\<close> in the
  reference selection.
\<close>

definition pairs_example :: world where
  "pairs_example =
     \<lparr>currentInputData =
        [\<lparr>row_id = ''child1'', parentId = Some ''parent1'', isFavorited = Some False\<rparr>,
         \<lparr>row_id = ''child2'', parentId = Some ''parent2'', isFavorited = Some False\<rparr>],
      compareExamplesEnabled = True,
      selectionService = \<lparr>selectedIds = [], primarySelectedId = None\<rparr>,
      referenceSelectionService = \<lparr>selectedIds = [], primarySelectedId = None\<rparr>,
      sliceService = \<lparr>namedSlices = [(''Favorites'', [])], selectedSliceName = []\<rparr>,
      highlightFavorite = False,
      sliceByFeatures = [],
      sliceName = []\<rparr>"

definition pairs_example_next :: world where
  "pairs_example_next =
     pairs_example
       \<lparr>selectionService :=
          \<lparr>selectedIds = [''child1'', ''parent1'', ''child2'', ''parent2''],
           primarySelectedId = Some ''child2''\<rparr>,
        referenceSelectionService :=
          \<lparr>selectedIds = [''parent2''], primarySelectedId = Some ''parent2''\<rparr>\<rparr>"

text \<open>A lineage \<open>c\<close> of \<open>b\<close> of \<open>a\<close>, an unrelated row \<open>d\<close>, and the selection \<open>[b]\<close>.\<close>

definition lineage_example :: world where
  "lineage_example =
     \<lparr>currentInputData =
        [\<lparr>row_id = ''a'', parentId = None, isFavorited = Some False\<rparr>,
         \<lparr>row_id = ''b'', parentId = Some ''a'', isFavorited = Some False\<rparr>,
         \<lparr>row_id = ''c'', parentId = Some ''b'', isFavorited = Some False\<rparr>,
         \<lparr>row_id = ''d'', parentId = None, isFavorited = Some False\<rparr>],
      compareExamplesEnabled = False,
      selectionService = \<lparr>selectedIds = [''b''], primarySelectedId = Some ''b''\<rparr>,
      referenceSelectionService = \<lparr>selectedIds = [], primarySelectedId = None\<rparr>,
      sliceService = \<lparr>namedSlices = [(''Favorites'', [])], selectedSliceName = []\<rparr>,
      highlightFavorite = False,
      sliceByFeatures = [],
      sliceName = []\<rparr>"


section \<open>Sets, indices and remainders\<close>

lemma set_foldl_Set_add: "set (foldl Set_add s xs) = set s \<union> set xs"
  by (induction xs arbitrary: s) (auto simp: Set_add_def)

lemma distinct_foldl_Set_add: "distinct s \<Longrightarrow> distinct (foldl Set_add s xs)"
  by (induction xs arbitrary: s) (auto simp: Set_add_def)

lemma set_Set_of: "set (Set_of xs) = set xs"
  by (simp add: Set_of_def set_foldl_Set_add)

lemma distinct_Set_of: "distinct (Set_of xs)"
  by (simp add: Set_of_def distinct_foldl_Set_add)

lemma foldl_Set_add_distinct: "distinct (s @ xs) \<Longrightarrow> foldl Set_add s xs = s @ xs"
  by (induction xs arbitrary: s) (auto simp: Set_add_def)

lemma Set_of_distinct: "distinct xs \<Longrightarrow> Set_of xs = xs"
  using foldl_Set_add_distinct [of "[]" xs] by (simp add: Set_of_def)

lemma findIndex_bounds: "- 1 \<le> findIndex P xs \<and> findIndex P xs < int (length xs)"
  by (induction xs) (auto simp: Let_def)

lemma findIndex_first:
  "i < length xs \<Longrightarrow> P (xs ! i) \<Longrightarrow> (\<forall>j<i. \<not> P (xs ! j)) \<Longrightarrow> findIndex P xs = int i"
proof (induction xs arbitrary: i)
  case Nil
  then show ?case by simp
next
  case (Cons x xs)
  show ?case
  proof (cases i)
    case 0
    with Cons.prems show ?thesis by simp
  next
    case (Suc k)
    with Cons.prems have "\<not> P x" by auto
    moreover have "findIndex P xs = int k"
      using Cons.prems Suc by (intro Cons.IH) auto
    ultimately show ?thesis using Suc by (simp add: Let_def)
  qed
qed

lemma findIndex_distinct:
  assumes "distinct (map f xs)" "i < length xs"
  shows "findIndex (\<lambda>x. Some (f x) = Some (f (xs ! i))) xs = int i"
proof (rule findIndex_first)
  show "\<forall>j<i. \<not> Some (f (xs ! j)) = Some (f (xs ! i))"
  proof (intro allI impI)
    fix j assume "j < i"
    with assms show "\<not> Some (f (xs ! j)) = Some (f (xs ! i))"
      using nth_eq_iff_index_eq [of "map f xs" j i] by simp
  qed
qed (use assms in auto)

lemma js_rem_nonneg: "0 \<le> a \<Longrightarrow> 0 < b \<Longrightarrow> js_rem a b = Some (a mod b)"
  by (cases "a = 0") (auto simp: js_rem_def)

lemma js_rem_nat: "0 < n \<Longrightarrow> js_rem (int k) (int n) = Some (int (k mod n))"
  using js_rem_nonneg [of "int k" "int n"] by (simp add: zmod_int)

lemma js_index_nat: "k < length xs \<Longrightarrow> js_index xs (int k) = Some (xs ! k)"
  by (simp add: js_index_def)

lemma selectedIds_selectIds_single: "selectedIds (selectIds [x] s) = [x]"
  by (simp add: selectIds_def Set_of_def Set_add_def)

section \<open>Invariants of the services\<close>

text \<open>
  The selection stays a set whose primary identifier, when there is one, is a member;
  the reserved favorites slice outlives every operation of the slice service.
\<close>

lemma selectIds_invariant:
  "distinct (selectedIds (selectIds ids s)) \<and>
   (case primarySelectedId (selectIds ids s) of
      None \<Rightarrow> True
    | Some p \<Rightarrow> p \<in> set (selectedIds (selectIds ids s)))"
  by (auto simp: selectIds_def distinct_Set_of set_Set_of split: option.splits list.splits)

lemma setPrimarySelection_invariant:
  "distinct (selectedIds s) \<Longrightarrow>
   distinct (selectedIds (setPrimarySelection i s)) \<and>
   primarySelectedId (setPrimarySelection i s) = Some i \<and>
   i \<in> set (selectedIds (setPrimarySelection i s))"
  by (simp add: setPrimarySelection_def)

lemma key_delete_other: "k \<noteq> n \<Longrightarrow> k \<in> fst ` set al \<Longrightarrow> k \<in> fst ` set (AList.delete n al)"
  by (force simp: AList.delete_eq)

lemma favorites_persists:
  assumes "FAVORITES_SLICE_NAME \<in> set (sliceNames s)"
  shows "FAVORITES_SLICE_NAME \<in> set (sliceNames (addNamedSlice name ids s))"
    and "FAVORITES_SLICE_NAME \<in> set (sliceNames (deleteNamedSlice name s))"
    and "FAVORITES_SLICE_NAME \<in> set (sliceNames (addIdsToSlice name ids s))"
    and "FAVORITES_SLICE_NAME \<in> set (sliceNames (removeIdsFromSlice name ids s))"
  using assms
  by (auto simp: sliceNames_def addNamedSlice_def deleteNamedSlice_def addIdsToSlice_def
      removeIdsFromSlice_def dom_update key_delete_other split: option.splits)

section \<open>Paging through the dataset\<close>

lemma selectionArrows_selectOffset_at:
  assumes "findIndex (\<lambda>ex. Some (row_id ex) = primarySelectedId (selectionService w))
             (currentInputData w) + offset + int (length (currentInputData w)) = int k"
    and "currentInputData w \<noteq> []"
  shows "selectionArrows_selectOffset offset w =
           Inr (w\<lparr>selectionService :=
                    selectIds [row_id (currentInputData w ! (k mod length (currentInputData w)))]
                      (selectionService w)\<rparr>)"
proof -
  have "k mod length (currentInputData w) < length (currentInputData w)"
    using assms(2) by simp
  then show ?thesis
    using assms js_rem_nat [of "length (currentInputData w)" k]
    by (simp add: selectionArrows_selectOffset_def js_index_nat)
qed

text \<open>
  Claim C1. When exactly one identifier \<open>x\<close> is selected (it is then the primary
  identifier, which the handler reads) and \<open>x\<close> is the identifier of row \<open>i\<close> of a dataset
  of \<open>N\<close> rows with unique identifiers, "next" replaces the selection with the identifier
  at index \<open>(i + 1) mod N\<close> and "prev" with the identifier at index \<open>(i - 1 + N) mod N\<close>.
\<close>

theorem paging_wraps:
  assumes sel: "selectedIds (selectionService w) = [x]"
    and prim: "primarySelectedId (selectionService w) = Some x"
    and i: "i < length (currentInputData w)" "row_id (currentInputData w ! i) = x"
    and ids: "distinct (map row_id (currentInputData w))"
  shows "(\<exists>w'. selectionArrows_selectOffset 1 w = Inr w' \<and>
            selectedIds (selectionService w') =
              [row_id (currentInputData w ! ((i + 1) mod length (currentInputData w)))]) \<and>
         (\<exists>w'. selectionArrows_selectOffset (- 1) w = Inr w' \<and>
            selectedIds (selectionService w') =
              [row_id (currentInputData w !
                 ((i + length (currentInputData w) - 1) mod length (currentInputData w)))])"
proof
  let ?rows = "currentInputData w"
  let ?n = "length ?rows"
  have idx: "findIndex (\<lambda>ex. Some (row_id ex) = primarySelectedId (selectionService w)) ?rows
               = int i"
    using findIndex_distinct [OF ids i(1)] i(2) prim by simp
  have ne: "?rows \<noteq> []" using i(1) by auto
  have "Suc (i + ?n) mod ?n = Suc i mod ?n"
    by (metis add_Suc mod_add_self2)
  with selectionArrows_selectOffset_at [OF _ ne, of 1 "i + 1 + ?n"] idx
  show "\<exists>w'. selectionArrows_selectOffset 1 w = Inr w' \<and>
            selectedIds (selectionService w') = [row_id (?rows ! ((i + 1) mod ?n))]"
    by (simp add: selectedIds_selectIds_single)
  have "int i + - 1 + int ?n = int (i + ?n - 1)" using i(1) by auto
  from selectionArrows_selectOffset_at [OF _ ne, of "- 1" "i + ?n - 1"] idx this
  show "\<exists>w'. selectionArrows_selectOffset (- 1) w = Inr w' \<and>
            selectedIds (selectionService w') = [row_id (?rows ! ((i + ?n - 1) mod ?n))]"
    by (simp add: selectedIds_selectIds_single)
qed

text \<open>
  The theorem at the spec's dataset \<open>[a, b, c, d, e]\<close> with the selection \<open>[c]\<close>, index
  \<open>2\<close>: "next" selects \<open>d\<close>, "prev" selects \<open>b\<close>.
\<close>

theorem paging_wraps_witness:
  "selectedIds (selectionService paging_example) = [''c''] \<and>
   primarySelectedId (selectionService paging_example) = Some ''c'' \<and>
   (2::nat) < length (currentInputData paging_example) \<and>
   row_id (currentInputData paging_example ! 2) = ''c'' \<and>
   distinct (map row_id (currentInputData paging_example)) \<and>
   (\<exists>w'. selectionArrows_selectOffset 1 paging_example = Inr w' \<and>
          selectedIds (selectionService w') = [''d'']) \<and>
   (\<exists>w'. selectionArrows_selectOffset (- 1) paging_example = Inr w' \<and>
          selectedIds (selectionService w') = [''b''])"
proof -
  have h: "selectedIds (selectionService paging_example) = [''c'']"
    "primarySelectedId (selectionService paging_example) = Some ''c''"
    "(2::nat) < length (currentInputData paging_example)"
    "row_id (currentInputData paging_example ! 2) = ''c''"
    "distinct (map row_id (currentInputData paging_example))"
    by (simp_all add: paging_example_def)
  have r: "currentInputData paging_example ! ((2 + 1) mod length (currentInputData paging_example))
             = \<lparr>row_id = ''d'', parentId = None, isFavorited = Some False\<rparr>"
    "currentInputData paging_example !
       ((2 + length (currentInputData paging_example) - 1) mod
          length (currentInputData paging_example))
             = \<lparr>row_id = ''b'', parentId = None, isFavorited = Some False\<rparr>"
    by (simp_all add: paging_example_def)
  from paging_wraps [OF h] show ?thesis unfolding r using h by simp
qed

text \<open>
  The spec's second scenario: "prev" twice from the selection \<open>[c]\<close> selects \<open>b\<close> and
  then \<open>a\<close>. The second step starts from \<open>b\<close> because \<open>selectIds\<close> made it primary.
\<close>

lemma paging_prev_twice:
  "selectionArrows_selectOffset (- 1) paging_example =
     Inr (paging_example\<lparr>selectionService :=
            \<lparr>selectedIds = [''b''], primarySelectedId = Some ''b''\<rparr>\<rparr>) \<and>
   selectionArrows_selectOffset (- 1)
     (paging_example\<lparr>selectionService :=
        \<lparr>selectedIds = [''b''], primarySelectedId = Some ''b''\<rparr>\<rparr>) =
     Inr (paging_example\<lparr>selectionService :=
            \<lparr>selectedIds = [''a''], primarySelectedId = Some ''a''\<rparr>\<rparr>)"
proof -
  let ?b = "paging_example\<lparr>selectionService :=
              \<lparr>selectedIds = [''b''], primarySelectedId = Some ''b''\<rparr>\<rparr>"
  have ne: "currentInputData paging_example \<noteq> []" "currentInputData ?b \<noteq> []"
    by (simp_all add: paging_example_def)
  have i1: "findIndex (\<lambda>ex. Some (row_id ex) = primarySelectedId (selectionService paging_example))
             (currentInputData paging_example) + (- 1)
             + int (length (currentInputData paging_example)) = int 6"
    by (simp add: paging_example_def)
  have i2: "findIndex (\<lambda>ex. Some (row_id ex) = primarySelectedId (selectionService ?b))
             (currentInputData ?b) + (- 1) + int (length (currentInputData ?b)) = int 5"
    by (simp add: paging_example_def)
  have s1: "selectIds [row_id (currentInputData paging_example !
               (6 mod length (currentInputData paging_example)))] (selectionService paging_example)
             = \<lparr>selectedIds = [''b''], primarySelectedId = Some ''b''\<rparr>"
    by (simp add: paging_example_def selectIds_def Set_of_def Set_add_def)
  have s2: "selectIds [row_id (currentInputData ?b ! (5 mod length (currentInputData ?b)))]
              (selectionService ?b)
             = \<lparr>selectedIds = [''a''], primarySelectedId = Some ''a''\<rparr>"
    by (simp add: paging_example_def selectIds_def Set_of_def Set_add_def)
  show ?thesis
    using selectionArrows_selectOffset_at [OF i1 ne(1)] selectionArrows_selectOffset_at [OF i2 ne(2)]
    unfolding s1 s2 by simp
qed

text \<open>
  With the offsets the controls use (\<open>-1\<close>, \<open>1\<close>, or a random offset from \<open>1\<close> up), paging
  a non-empty dataset never reads outside it: the handler returns a state.
\<close>

lemma selectionArrows_selectOffset_total:
  assumes "currentInputData w \<noteq> []" "- 1 \<le> offset"
  shows "\<exists>w'. selectionArrows_selectOffset offset w = Inr w'"
proof -
  let ?n = "int (length (currentInputData w))"
  let ?a = "findIndex (\<lambda>ex. Some (row_id ex) = primarySelectedId (selectionService w))
              (currentInputData w) + offset + ?n"
  have n: "0 < ?n" using assms(1) by auto
  have a: "- 1 \<le> ?a - ?n + 1"
    using findIndex_bounds [of "\<lambda>ex. Some (row_id ex) = primarySelectedId (selectionService w)"
        "currentInputData w"] assms(2) by linarith
  obtain r where r: "js_rem ?a ?n = Some r" "0 \<le> r" "r < ?n"
  proof (cases "0 \<le> ?a")
    case True
    from this n have "js_rem ?a ?n = Some (?a mod ?n)" by (rule js_rem_nonneg)
    with n that show ?thesis by simp
  next
    case False
    with a n have "?n = 1" "?a = - 1" by linarith+
    then have "js_rem ?a ?n = Some 0" by (simp add: js_rem_def)
    with n that show ?thesis by simp
  qed
  then obtain ex where "js_index (currentInputData w) r = Some ex"
    by (auto simp: js_index_def)
  with r(1) show ?thesis
    by (simp add: selectionArrows_selectOffset_def Let_def)
qed

section \<open>The slice editor: create and delete\<close>

text \<open>
  Claim C5. With no feature checkbox checked, the create action adds a slice under the
  entered name whose members are exactly the selected identifiers (each once), makes
  that slice the selected slice, and resets the name input and the checkbox list.
\<close>

theorem handleClickCreate_selection:
  assumes "sliceByFeatures w = []"
  shows "\<exists>w' m. handleClickCreate groupExamplesByFeatures w = Inr w' \<and>
           map_of (namedSlices (sliceService w')) (sliceName w) = Some m \<and>
           set m = set (selectedIds (selectionService w)) \<and> distinct m \<and>
           selectedSliceName (sliceService w') = sliceName w \<and>
           sliceName w' = [] \<and> sliceByFeatures w' = []"
  using assms
  by (simp add: handleClickCreate_def anyCheckboxChecked_def selectSlice_def selectNamedSlice_def
      addNamedSlice_def Let_def update_conv' set_Set_of distinct_Set_of)

text \<open>The theorem at the selection \<open>[c]\<close> and the name \<open>mine\<close>.\<close>

theorem handleClickCreate_selection_witness:
  "sliceByFeatures paging_example = [] \<and>
   (\<exists>w' m. handleClickCreate (\<lambda>rows features. []) paging_example = Inr w' \<and>
      map_of (namedSlices (sliceService w')) ''mine'' = Some m \<and>
      set m = {''c''} \<and> distinct m \<and>
      selectedSliceName (sliceService w') = ''mine'' \<and>
      sliceName w' = [] \<and> sliceByFeatures w' = [])"
proof -
  have h: "sliceByFeatures paging_example = []"
    by (simp add: paging_example_def)
  have e: "sliceName paging_example = ''mine''"
    "set (selectedIds (selectionService paging_example)) = {''c''}"
    by (simp_all add: paging_example_def)
  from handleClickCreate_selection [OF h, of "\<lambda>rows features. []"] show ?thesis
    unfolding e using h by simp
qed

text \<open>
  Claim C6. The create button is enabled exactly when nothing is selected and a feature
  checkbox is checked, or a name is entered and something is selected.
\<close>

theorem createButtonEnabled_iff:
  "createButtonEnabled w \<longleftrightarrow>
     (selectedIds (selectionService w) = [] \<and> sliceByFeatures w \<noteq> []) \<or>
     (sliceName w \<noteq> [] \<and> selectedIds (selectionService w) \<noteq> [])"
  by (auto simp: createButtonEnabled_def anyCheckboxChecked_def)

text \<open>With \<open>c\<close> selected the button is enabled for the name \<open>mine\<close> and disabled for no name.\<close>

theorem createButtonEnabled_iff_witness:
  "createButtonEnabled paging_example \<and> \<not> createButtonEnabled (paging_example\<lparr>sliceName := []\<rparr>)"
  using createButtonEnabled_iff [of paging_example]
    createButtonEnabled_iff [of "paging_example\<lparr>sliceName := []\<rparr>"]
  by (simp add: paging_example_def)

text \<open>
  Claim C7. The delete control is disabled when no slice is active or the active slice
  is the favorites slice, and deleting while the favorites slice is active leaves every
  slice, the favorites slice and its members included, as it was.
\<close>

theorem delete_favorites_noop:
  "(selectedSliceName (sliceService w) = [] \<or>
    selectedSliceName (sliceService w) = FAVORITES_SLICE_NAME \<longrightarrow> \<not> deleteButtonEnabled w) \<and>
   (selectedSliceName (sliceService w) = FAVORITES_SLICE_NAME \<longrightarrow>
      namedSlices (sliceService (deleteSlice w)) = namedSlices (sliceService w))"
  by (auto simp: deleteButtonEnabled_def deleteSlice_def selectSlice_def selectNamedSlice_def
      deleteNamedSlice_def Let_def)

text \<open>The theorem at a state whose active slice is the favorites slice, with member \<open>y\<close>.\<close>

theorem delete_favorites_noop_witness:
  "selectedSliceName (sliceService favorites_example) = FAVORITES_SLICE_NAME \<and>
   \<not> deleteButtonEnabled favorites_example \<and>
   namedSlices (sliceService (deleteSlice favorites_example)) =
     [(''Favorites'', [''y'']), (''mine'', [''z''])]"
proof -
  have h: "selectedSliceName (sliceService favorites_example) = FAVORITES_SLICE_NAME"
    by (simp add: favorites_example_def FAVORITES_SLICE_NAME_def)
  have e: "namedSlices (sliceService favorites_example) =
             [(''Favorites'', [''y'']), (''mine'', [''z''])]"
    by (simp add: favorites_example_def)
  from delete_favorites_noop [of favorites_example] h e show ?thesis by simp
qed

text \<open>
  Claim C10. After \<^verbatim>\<open>deleteSlice\<close> no slice is active, whichever slice was active before,
  and the slice that was active, unless it is the reserved favorites slice, is gone.
\<close>

theorem deleteSlice_no_active:
  "selectedSliceName (sliceService (deleteSlice w)) = [] \<and>
   (selectedSliceName (sliceService w) \<noteq> FAVORITES_SLICE_NAME \<longrightarrow>
      selectedSliceName (sliceService w) \<notin> set (sliceNames (sliceService (deleteSlice w))))"
  by (simp add: deleteSlice_def selectSlice_def selectNamedSlice_def deleteNamedSlice_def
      sliceNames_def Let_def delete_notin_dom)

text \<open>The theorem at a state whose active slice is \<open>mine\<close>.\<close>

theorem deleteSlice_no_active_witness:
  "''mine'' \<noteq> FAVORITES_SLICE_NAME \<and>
   selectedSliceName
     (sliceService (deleteSlice (favorites_example\<lparr>sliceService :=
        (sliceService favorites_example)\<lparr>selectedSliceName := ''mine''\<rparr>\<rparr>))) = [] \<and>
   ''mine'' \<notin> set (sliceNames
     (sliceService (deleteSlice (favorites_example\<lparr>sliceService :=
        (sliceService favorites_example)\<lparr>selectedSliceName := ''mine''\<rparr>\<rparr>))))"
  using deleteSlice_no_active [of "favorites_example\<lparr>sliceService :=
        (sliceService favorites_example)\<lparr>selectedSliceName := ''mine''\<rparr>\<rparr>"]
  by (simp add: FAVORITES_SLICE_NAME_def)

section \<open>The favorite toggle\<close>

text \<open>
  Claim C9. Without a primary-selected row, or when that row has no \<^verbatim>\<open>isFavorited\<close>
  field, \<^verbatim>\<open>toggleFavorited\<close> changes nothing: rows, slices, active slice and selection
  stay as they are.
\<close>

theorem toggleFavorited_noop:
  "primarySelectedInputData w = None \<or>
   (\<exists>d. primarySelectedInputData w = Some d \<and> isFavorited d = None) \<Longrightarrow>
   toggleFavorited w = w"
  by (auto simp: toggleFavorited_def)

text \<open>The theorem at a state without a primary selection.\<close>

theorem toggleFavorited_noop_witness:
  "primarySelectedInputData
     (favorites_example\<lparr>selectionService := \<lparr>selectedIds = [], primarySelectedId = None\<rparr>\<rparr>) = None \<and>
   toggleFavorited
     (favorites_example\<lparr>selectionService := \<lparr>selectedIds = [], primarySelectedId = None\<rparr>\<rparr>) =
     favorites_example\<lparr>selectionService := \<lparr>selectedIds = [], primarySelectedId = None\<rparr>\<rparr>"
proof -
  have h: "primarySelectedInputData
     (favorites_example\<lparr>selectionService := \<lparr>selectedIds = [], primarySelectedId = None\<rparr>\<rparr>) = None"
    by (simp add: primarySelectedInputData_def)
  from toggleFavorited_noop [OF disjI1, OF h] h show ?thesis by simp
qed

lemma find_mutateRow_same:
  "(\<And>d. row_id (f d) = row_id d) \<Longrightarrow>
   find (\<lambda>d. row_id d = i) (mutateRow i f rows) = map_option f (find (\<lambda>d. row_id d = i) rows)"
  by (induction rows) auto

lemma find_row_id: "find (\<lambda>d. row_id d = i) rows = Some d \<Longrightarrow> row_id d = i"
  by (induction rows) (auto split: if_splits)

lemma primarySelectedInputData_SomeD:
  assumes "primarySelectedInputData w = Some d"
  shows "primarySelectedId (selectionService w) = Some (row_id d)"
    and "find (\<lambda>r. row_id r = row_id d) (currentInputData w) = Some d"
  using assms find_row_id [of _ "currentInputData w" d]
  by (auto simp: primarySelectedInputData_def split: option.splits)

text \<open>One toggle, for either state of the flag, when the favorites slice exists.\<close>

lemma toggleFavorited_eq:
  assumes d: "primarySelectedInputData w = Some d" and b: "isFavorited d = Some b"
    and favs: "map_of (namedSlices (sliceService w)) FAVORITES_SLICE_NAME = Some favs"
  shows "currentInputData (toggleFavorited w) =
           mutateRow (row_id d) (\<lambda>r. r\<lparr>isFavorited := Some (\<not> b)\<rparr>) (currentInputData w)"
    and "namedSlices (sliceService (toggleFavorited w)) =
           AList.update FAVORITES_SLICE_NAME
             (if b then filter (\<lambda>i. i \<noteq> row_id d) favs else Set_add favs (row_id d))
             (namedSlices (sliceService w))"
    and "selectedSliceName (sliceService (toggleFavorited w)) = selectedSliceName (sliceService w)"
    and "selectionService (toggleFavorited w) =
           (if selectedSliceName (sliceService w) = FAVORITES_SLICE_NAME
            then selectIds (if b then filter (\<lambda>i. i \<noteq> row_id d) favs else Set_add favs (row_id d))
                   (selectionService w)
            else selectionService w)"
    and "highlightFavorite (toggleFavorited w) = (\<not> b)"
  using assms
  by (simp_all add: toggleFavorited_def Let_def addIdsToSlice_def removeIdsFromSlice_def
      selectNamedSlice_def update_conv' FAVORITES_SLICE_NAME_def)

lemma count_list_distinct: "distinct xs \<Longrightarrow> x \<in> set xs \<Longrightarrow> count_list xs x = 1"
  by (induction xs) auto

lemma Set_add_props:
  "set (Set_add s x) = insert x (set s)" "distinct s \<Longrightarrow> distinct (Set_add s x)"
  by (auto simp: Set_add_def)

lemma remove_Set_add: "x \<notin> set s \<Longrightarrow> filter (\<lambda>i. i \<noteq> x) (Set_add s x) = s"
  by (auto simp: Set_add_def filter_id_conv)

lemma primary_selectIds_kept:
  "primarySelectedId s = Some p \<Longrightarrow> p \<in> set ids \<Longrightarrow> primarySelectedId (selectIds ids s) = Some p"
  by (simp add: selectIds_def)

lemma selectedIds_selectIds: "selectedIds (selectIds ids s) = Set_of ids"
  by (simp add: selectIds_def)

text \<open>
  Claim C3. Let the primary-selected row \<open>d\<close> have the flag false, and let the favorites
  slice have the duplicate-free members \<open>favs\<close>. One toggle sets the flag of \<open>d\<close> and makes
  the members \<open>f1\<close>: \<open>favs\<close> with the identifier of \<open>d\<close>, which occurs in \<open>f1\<close> exactly
  once. A second toggle clears the flag and makes the members \<open>f2\<close>: \<open>favs\<close> without the
  identifier (\<open>favs\<close> itself when the identifier was not a member). Both \<open>f1\<close> and \<open>f2\<close> are
  duplicate-free, and when the favorites slice is the active slice it stays active and
  the selection is \<open>f1\<close> after the first toggle and \<open>f2\<close> after the second.
\<close>

theorem toggleFavorited_roundtrip:
  assumes d: "primarySelectedInputData w = Some d" and b: "isFavorited d = Some False"
    and favs: "map_of (namedSlices (sliceService w)) FAVORITES_SLICE_NAME = Some favs"
    and dist: "distinct favs"
  shows "\<exists>f1 f2.
      find (\<lambda>r. row_id r = row_id d) (currentInputData (toggleFavorited w))
        = Some (d\<lparr>isFavorited := Some True\<rparr>) \<and>
      map_of (namedSlices (sliceService (toggleFavorited w))) FAVORITES_SLICE_NAME = Some f1 \<and>
      set f1 = insert (row_id d) (set favs) \<and> count_list f1 (row_id d) = 1 \<and> distinct f1 \<and>
      (selectedSliceName (sliceService w) = FAVORITES_SLICE_NAME \<longrightarrow>
         selectedSliceName (sliceService (toggleFavorited w)) = FAVORITES_SLICE_NAME \<and>
         selectedIds (selectionService (toggleFavorited w)) = f1) \<and>
      find (\<lambda>r. row_id r = row_id d) (currentInputData (toggleFavorited (toggleFavorited w)))
        = Some (d\<lparr>isFavorited := Some False\<rparr>) \<and>
      map_of (namedSlices (sliceService (toggleFavorited (toggleFavorited w)))) FAVORITES_SLICE_NAME
        = Some f2 \<and>
      set f2 = set favs - {row_id d} \<and> row_id d \<notin> set f2 \<and> distinct f2 \<and>
      (row_id d \<notin> set favs \<longrightarrow> f2 = favs) \<and>
      (selectedSliceName (sliceService w) = FAVORITES_SLICE_NAME \<longrightarrow>
         selectedSliceName (sliceService (toggleFavorited (toggleFavorited w))) = FAVORITES_SLICE_NAME \<and>
         selectedIds (selectionService (toggleFavorited (toggleFavorited w))) = f2)"
proof -
  let ?x = "row_id d"
  let ?w1 = "toggleFavorited w"
  let ?w2 = "toggleFavorited ?w1"
  let ?d1 = "d\<lparr>isFavorited := Some True\<rparr>"
  let ?f1 = "Set_add favs ?x"
  let ?f2 = "filter (\<lambda>i. i \<noteq> ?x) ?f1"
  note d' = primarySelectedInputData_SomeD [OF d]
  note t1 = toggleFavorited_eq [OF d b favs]
  have row1: "find (\<lambda>r. row_id r = ?x) (currentInputData ?w1) = Some ?d1"
    using d'(2) by (simp add: t1(1) find_mutateRow_same)
  have sl1: "map_of (namedSlices (sliceService ?w1)) FAVORITES_SLICE_NAME = Some ?f1"
    by (simp add: t1(2) update_conv')
  have f1: "set ?f1 = insert ?x (set favs)" "distinct ?f1"
    using dist by (simp_all add: Set_add_props)
  have prim1: "primarySelectedId (selectionService ?w1) = Some ?x"
    using d'(1) f1(1) by (simp add: t1(4) primary_selectIds_kept)
  have d1: "primarySelectedInputData ?w1 = Some ?d1"
    using row1 prim1 by (simp add: primarySelectedInputData_def)
  have b1: "isFavorited ?d1 = Some True" by simp
  note t2 = toggleFavorited_eq [OF d1 b1 sl1]
  have row2: "find (\<lambda>r. row_id r = ?x) (currentInputData ?w2) = Some (d\<lparr>isFavorited := Some False\<rparr>)"
    using row1 t2(1) by (simp add: find_mutateRow_same)
  have sl2: "map_of (namedSlices (sliceService ?w2)) FAVORITES_SLICE_NAME = Some ?f2"
    using t2(2) by (simp add: update_conv')
  have f2: "set ?f2 = set favs - {?x}" "?x \<notin> set ?f2" "distinct ?f2"
    using f1 by auto
  have f2': "?x \<notin> set favs \<longrightarrow> ?f2 = favs"
    by (simp add: remove_Set_add)
  have act1: "selectedSliceName (sliceService w) = FAVORITES_SLICE_NAME \<longrightarrow>
         selectedSliceName (sliceService ?w1) = FAVORITES_SLICE_NAME \<and>
         selectedIds (selectionService ?w1) = ?f1"
    using f1(2) by (simp add: t1(3,4) selectedIds_selectIds Set_of_distinct)
  have act2: "selectedSliceName (sliceService w) = FAVORITES_SLICE_NAME \<longrightarrow>
         selectedSliceName (sliceService ?w2) = FAVORITES_SLICE_NAME \<and>
         selectedIds (selectionService ?w2) = ?f2"
    using f2(3) t2(3,4) t1(3) by (simp add: selectedIds_selectIds Set_of_distinct)
  have c1: "count_list ?f1 ?x = 1"
    using f1 by (simp add: count_list_distinct)
  show ?thesis
    using row1 sl1 f1 c1 act1 row2 sl2 f2 f2' act2 by blast
qed

text \<open>
  The theorem at a state where \<open>x\<close> is primary and not a favorite and the favorites
  slice, with the member \<open>y\<close>, is active.
\<close>

theorem toggleFavorited_roundtrip_witness:
  "primarySelectedInputData favorites_example =
     Some \<lparr>row_id = ''x'', parentId = None, isFavorited = Some False\<rparr> \<and>
   map_of (namedSlices (sliceService favorites_example)) FAVORITES_SLICE_NAME = Some [''y''] \<and>
   selectedSliceName (sliceService favorites_example) = FAVORITES_SLICE_NAME \<and>
   (\<exists>f1 f2.
      map_of (namedSlices (sliceService (toggleFavorited favorites_example))) FAVORITES_SLICE_NAME
        = Some f1 \<and>
      count_list f1 ''x'' = 1 \<and> set f1 = {''x'', ''y''} \<and>
      selectedIds (selectionService (toggleFavorited favorites_example)) = f1 \<and>
      map_of (namedSlices (sliceService (toggleFavorited (toggleFavorited favorites_example))))
        FAVORITES_SLICE_NAME = Some f2 \<and>
      f2 = [''y''] \<and>
      selectedIds (selectionService (toggleFavorited (toggleFavorited favorites_example))) = f2)"
proof -
  let ?d = "\<lparr>row_id = ''x'', parentId = None, isFavorited = Some False\<rparr>"
  have h1: "primarySelectedInputData favorites_example = Some ?d"
    by (simp add: primarySelectedInputData_def favorites_example_def)
  have h2: "isFavorited ?d = Some False" by simp
  have h3: "map_of (namedSlices (sliceService favorites_example)) FAVORITES_SLICE_NAME = Some [''y'']"
    by (simp add: favorites_example_def FAVORITES_SLICE_NAME_def)
  have h4: "distinct [''y'']" by simp
  have h5: "selectedSliceName (sliceService favorites_example) = FAVORITES_SLICE_NAME"
    by (simp add: favorites_example_def FAVORITES_SLICE_NAME_def)
  from toggleFavorited_roundtrip [OF h1 h2 h3 h4] h5 obtain f1 f2 where
    "map_of (namedSlices (sliceService (toggleFavorited favorites_example))) FAVORITES_SLICE_NAME
        = Some f1"
    "count_list f1 ''x'' = 1" "set f1 = {''x'', ''y''}"
    "selectedIds (selectionService (toggleFavorited favorites_example)) = f1"
    "map_of (namedSlices (sliceService (toggleFavorited (toggleFavorited favorites_example))))
        FAVORITES_SLICE_NAME = Some f2"
    "f2 = [''y'']"
    "selectedIds (selectionService (toggleFavorited (toggleFavorited favorites_example))) = f2"
    by auto
  with h1 h3 h5 show ?thesis by blast
qed

section \<open>Paired navigation\<close>

lemma pairs_example_pairs:
  "selectedIdPairs pairs_example = [(''child1'', ''parent1''), (''child2'', ''parent2'')]"
  by (simp add: selectedIdPairs_def selectedOrAllInputData_def pairs_example_def
      List.map_filter_simps)

text \<open>
  Claim C2, as stated, fails. With comparison mode on, nothing selected and the pairs
  \<open>[(child1, parent1), (child2, parent2)]\<close>, "next" starts at index \<open>0\<close> and moves to index
  \<open>(0 + 1 + 2) % 2 = 1\<close>: the primary selections become \<open>child2\<close> and \<open>parent2\<close>, not
  \<open>child1\<close> and \<open>parent1\<close>.
\<close>

theorem pair_next_counterexample:
  "compareExamplesEnabled pairs_example \<and>
   selectedIds (selectionService pairs_example) = [] \<and>
   selectedIdPairs pairs_example = [(''child1'', ''parent1''), (''child2'', ''parent2'')] \<and>
   pair_selectOffset 1 pairs_example = Inr pairs_example_next \<and>
   primarySelectedId (selectionService pairs_example_next) \<noteq> Some ''child1'' \<and>
   primarySelectedId (referenceSelectionService pairs_example_next) \<noteq> Some ''parent1''"
  by (simp add: pairs_example_pairs pair_selectOffset_def js_rem_def js_index_def flatten_def
      selectIds_def setPrimarySelection_def Set_of_def Set_add_def pairs_example_next_def)
    (simp add: pairs_example_def flatten_def selectIds_def setPrimarySelection_def Set_of_def
      Set_add_def)

text \<open>
  Claim C2, amended. With comparison mode on, nothing selected (so no primary
  identifier) and the pair list \<open>[(c1, p1), (c2, p2)]\<close>, the pair controls are shown and
  "next" selects the flattened set of the pair members, makes \<open>c2\<close> the primary selection
  of the main context and \<open>p2\<close> the primary selection of the reference context.
\<close>

theorem pair_next_from_empty:
  assumes "compareExamplesEnabled w"
    and "selectedIds (selectionService w) = []"
    and "primarySelectedId (selectionService w) = None"
    and "selectedIdPairs w = [(c1, p1), (c2, p2)]"
  shows "pairControls (render w) \<and>
         (\<exists>w'. pair_selectOffset 1 w = Inr w' \<and>
            selectedIds (selectionService w') = Set_of [c1, p1, c2, p2] \<and>
            primarySelectedId (selectionService w') = Some c2 \<and>
            primarySelectedId (referenceSelectionService w') = Some p2)"
  using assms
  by (simp add: render_def pair_selectOffset_def js_rem_def js_index_def flatten_def
      selectIds_def setPrimarySelection_def set_Set_of)

text \<open>The amended claim at the two rows \<open>child1\<close> and \<open>child2\<close>.\<close>

theorem pair_next_from_empty_witness:
  "compareExamplesEnabled pairs_example \<and>
   selectedIds (selectionService pairs_example) = [] \<and>
   primarySelectedId (selectionService pairs_example) = None \<and>
   selectedIdPairs pairs_example = [(''child1'', ''parent1''), (''child2'', ''parent2'')] \<and>
   pairControls (render pairs_example) \<and>
   (\<exists>w'. pair_selectOffset 1 pairs_example = Inr w' \<and>
      selectedIds (selectionService w') = [''child1'', ''parent1'', ''child2'', ''parent2''] \<and>
      primarySelectedId (selectionService w') = Some ''child2'' \<and>
      primarySelectedId (referenceSelectionService w') = Some ''parent2'')"
proof -
  have h: "compareExamplesEnabled pairs_example"
    "selectedIds (selectionService pairs_example) = []"
    "primarySelectedId (selectionService pairs_example) = None"
    by (simp_all add: pairs_example_def)
  have e: "Set_of [''child1'', ''parent1'', ''child2'', ''parent2'']
             = [''child1'', ''parent1'', ''child2'', ''parent2'']"
    by (simp add: Set_of_def Set_add_def)
  from pair_next_from_empty [OF h pairs_example_pairs] h pairs_example_pairs
  show ?thesis unfolding e by simp
qed

section \<open>No navigation control divides by zero\<close>








section \<open>Selecting related rows\<close>

text \<open>
  The bounded walk of \<open>getAncestry\<close> reaches every ancestor, also when the links form a
  cycle: a path without a repeated identifier has at most as many links as the dataset
  has rows.
\<close>

lemma ancestry_link:
  "parentLink w c p \<Longrightarrow>
   ancestry (currentInputData w) (Suc n) c = c # ancestry (currentInputData w) n p"
  by (auto simp: parentLink_def split: option.splits)

lemma ancestry_no_link:
  "(\<And>p. \<not> parentLink w c p) \<Longrightarrow> ancestry (currentInputData w) (Suc n) c = [c]"
  by (auto simp: parentLink_def split: option.splits)

lemma ancestry_sound:
  "x \<in> set (ancestry (currentInputData w) n i) \<Longrightarrow> (parentLink w)\<^sup>*\<^sup>* i x"
proof (induction n arbitrary: i)
  case 0
  then show ?case by simp
next
  case (Suc n)
  show ?case
  proof (cases "\<exists>p. parentLink w i p")
    case True
    then obtain p where p: "parentLink w i p" ..
    with Suc.prems have "x = i \<or> x \<in> set (ancestry (currentInputData w) n p)"
      by (simp add: ancestry_link del: ancestry.simps)
    then show ?thesis
    proof
      assume "x = i"
      then show ?thesis by simp
    next
      assume "x \<in> set (ancestry (currentInputData w) n p)"
      then have "(parentLink w)\<^sup>*\<^sup>* p x" by (rule Suc.IH)
      with p show ?thesis by (rule converse_rtranclp_into_rtranclp)
    qed
  next
    case False
    with Suc.prems have "x = i"
      by (simp add: ancestry_no_link del: ancestry.simps)
    then show ?thesis by simp
  qed
qed

lemma path_in_ancestry:
  "rtrancl_path (parentLink w) x xs y \<Longrightarrow> length xs < n \<Longrightarrow>
   y \<in> set (ancestry (currentInputData w) n x)"
proof (induction arbitrary: n rule: rtrancl_path.induct)
  case (base x)
  then show ?case by (cases n) simp_all
next
  case (step x z ys y)
  then obtain m where "n = Suc m" "length ys < m" by (cases n) auto
  with step show ?case by (simp add: ancestry_link del: ancestry.simps)
qed

lemma path_sources:
  "rtrancl_path (parentLink w) x xs y \<Longrightarrow>
   set (butlast (x # xs)) \<subseteq> row_id ` set (currentInputData w)"
proof (induction rule: rtrancl_path.induct)
  case (base x)
  then show ?case by simp
next
  case (step x z ys y)
  from step.hyps(1) obtain d where "find (\<lambda>d. row_id d = x) (currentInputData w) = Some d"
    by (auto simp: parentLink_def split: option.splits)
  then have "x \<in> row_id ` set (currentInputData w)"
    by (auto simp: find_Some_iff)
  with step.IH show ?case by simp
qed

lemma distinct_path_length:
  assumes "distinct (x # xs)" "set (butlast (x # xs)) \<subseteq> f ` set rows"
  shows "length xs \<le> length rows"
proof -
  have "length xs = length (butlast (x # xs))" by simp
  also have "\<dots> = card (set (butlast (x # xs)))"
    using assms(1) distinct_butlast [of "x # xs"] by (simp add: distinct_card del: butlast.simps)
  also have "\<dots> \<le> card (f ` set rows)"
    using assms(2) by (intro card_mono) auto
  also have "\<dots> \<le> card (set rows)" by (intro card_image_le) simp
  also have "\<dots> \<le> length rows" by (rule card_length)
  finally show ?thesis .
qed

lemma getAncestry_closure: "set (getAncestry w i) = {a. (parentLink w)\<^sup>*\<^sup>* i a}"
proof (intro set_eqI iffI)
  fix a assume "a \<in> set (getAncestry w i)"
  then show "a \<in> {a. (parentLink w)\<^sup>*\<^sup>* i a}"
    unfolding getAncestry_def using ancestry_sound by blast
next
  fix a assume "a \<in> {a. (parentLink w)\<^sup>*\<^sup>* i a}"
  then obtain xs where "rtrancl_path (parentLink w) i xs a"
    by (auto simp: rtranclp_eq_rtrancl_path)
  then obtain ys where p: "rtrancl_path (parentLink w) i ys a" and d: "distinct (i # ys)"
    by (rule rtrancl_path_distinct)
  from distinct_path_length [OF d path_sources [OF p]]
  have "length ys < Suc (length (currentInputData w))" by simp
  from path_in_ancestry [OF p this] show "a \<in> set (getAncestry w i)"
    by (simp only: getAncestry_def)
qed

lemma getAncestry_self: "i \<in> set (getAncestry w i)"
  by (simp add: getAncestry_def)

lemma set_findAllParents:
  "set (findAllParents w) = (\<Union>s\<in>set (selectedIds (selectionService w)). set (getAncestry w s))"
  by (simp add: findAllParents_def flatten_def)

lemma set_children_inner:
  "set (foldl (\<lambda>ids a. if P a then Set_add ids x else ids) ids as)
     = set ids \<union> (if \<exists>a\<in>set as. P a then {x} else {})"
  by (induction as arbitrary: ids) (auto simp: Set_add_def)

lemma set_children_outer:
  "set (foldl (\<lambda>ids d. foldl (\<lambda>ids a. if P a then Set_add ids (row_id d) else ids) ids (anc (row_id d)))
          ids rows)
     = set ids \<union> {row_id d |d. d \<in> set rows \<and> (\<exists>a\<in>set (anc (row_id d)). P a)}"
proof (induction rows arbitrary: ids)
  case Nil
  then show ?case by simp
next
  case (Cons r rows)
  show ?case
    by (simp add: Cons.IH set_children_inner) blast
qed

lemma set_findAllChildren:
  "set (findAllChildren w) =
     set (selectedIds (selectionService w)) \<union>
     {row_id d |d. d \<in> set (currentInputData w) \<and>
        set (getAncestry w (row_id d)) \<inter> set (selectedIds (selectionService w)) \<noteq> {}}"
  using set_children_outer [of "\<lambda>a. a \<in> set (selectedIds (selectionService w))"
      "getAncestry w" "Set_of (selectedIds (selectionService w))" "currentInputData w"]
  by (simp add: findAllChildren_def isIdSelected_def set_Set_of) blast

text \<open>
  Claim C4. \<^verbatim>\<open>selectRelated\<close> replaces the selection \<open>S\<close> with a duplicate-free list that
  contains \<open>S\<close> and whose members are exactly (a) every identifier that a member of \<open>S\<close>
  reaches over \<^verbatim>\<open>parentId\<close> links, the member itself included, and (b) the identifier of
  every dataset row whose ancestry contains a member of \<open>S\<close>.
\<close>

theorem selectRelated_union:
  "set (selectedIds (selectionService (selectRelated w))) =
     {a. \<exists>s\<in>set (selectedIds (selectionService w)). (parentLink w)\<^sup>*\<^sup>* s a} \<union>
     {row_id d |d. d \<in> set (currentInputData w) \<and>
        set (getAncestry w (row_id d)) \<inter> set (selectedIds (selectionService w)) \<noteq> {}} \<and>
   distinct (selectedIds (selectionService (selectRelated w))) \<and>
   set (selectedIds (selectionService w)) \<subseteq> set (selectedIds (selectionService (selectRelated w)))"
proof -
  have "set (selectedIds (selectionService w))
          \<subseteq> (\<Union>s\<in>set (selectedIds (selectionService w)). set (getAncestry w s))"
    using getAncestry_self by auto
  moreover have "(\<Union>s\<in>set (selectedIds (selectionService w)). set (getAncestry w s))
          = {a. \<exists>s\<in>set (selectedIds (selectionService w)). (parentLink w)\<^sup>*\<^sup>* s a}"
    by (auto simp: getAncestry_closure)
  ultimately show ?thesis
    by (auto simp: selectRelated_def selectIds_def set_Set_of distinct_Set_of
        set_findAllParents set_findAllChildren)
qed

text \<open>
  The theorem at the lineage \<open>c\<close> of \<open>b\<close> of \<open>a\<close> with \<open>b\<close> selected: the ancestor \<open>a\<close>
  and the descendant \<open>c\<close> are selected with \<open>b\<close>, and the unrelated \<open>d\<close> is not.
\<close>

theorem selectRelated_union_witness:
  "selectedIds (selectionService lineage_example) = [''b''] \<and>
   (parentLink lineage_example)\<^sup>*\<^sup>* ''b'' ''a'' \<and>
   ''b'' \<in> set (getAncestry lineage_example ''c'') \<and>
   {''a'', ''b'', ''c''} \<subseteq> set (selectedIds (selectionService (selectRelated lineage_example))) \<and>
   distinct (selectedIds (selectionService (selectRelated lineage_example))) \<and>
   selectedIds (selectionService (selectRelated lineage_example)) = [''b'', ''a'', ''c'']"
proof -
  have s: "selectedIds (selectionService lineage_example) = [''b'']"
    by (simp add: lineage_example_def)
  have "parentLink lineage_example ''b'' ''a''"
    by (simp add: parentLink_def lineage_example_def)
  then have a: "(parentLink lineage_example)\<^sup>*\<^sup>* ''b'' ''a''" by (rule r_into_rtranclp)
  have c: "''b'' \<in> set (getAncestry lineage_example ''c'')"
    by (simp add: getAncestry_def lineage_example_def)
  have r: "\<lparr>row_id = ''c'', parentId = Some ''b'', isFavorited = Some False\<rparr>
             \<in> set (currentInputData lineage_example)"
    by (simp add: lineage_example_def)
  have v: "selectedIds (selectionService (selectRelated lineage_example)) = [''b'', ''a'', ''c'']"
    by (simp add: selectRelated_def selectIds_def findAllParents_def findAllChildren_def
        flatten_def isIdSelected_def getAncestry_def lineage_example_def Set_of_def Set_add_def)
  from selectRelated_union [of lineage_example] s a c r
  have "{''a'', ''b'', ''c''} \<subseteq> set (selectedIds (selectionService (selectRelated lineage_example)))"
    and "distinct (selectedIds (selectionService (selectRelated lineage_example)))"
    by force+
  with s a c v show ?thesis by blast
qed

end
